theory Spec2Isabelle
  imports Complex_Main "HOL-Library.Word" "HOL-Library.AList"
begin

section \<open>Event-driven backtesting engine: the Python binding layer\<close>

text \<open>
  The embedding follows \<^verbatim>\<open>src/python_bindings/pybind11_wrapper.cpp\<close>. That file binds
  classes which it only forward-declares (\<^verbatim>\<open>class MarketEvent;\<close> and so on); wherever
  a definition below stands for such a class it says so and is written from the
  specification. A C++ \<^verbatim>\<open>double\<close> is a \<^typ>\<open>real\<close> (the specification's "real"),
  \<^verbatim>\<open>int64_t\<close> is a \<^typ>\<open>64 word\<close> and \<^verbatim>\<open>int\<close> a \<^typ>\<open>32 word\<close>, both read in two's
  complement.
\<close>

subsection \<open>Enumerations (wrapper lines 57-73)\<close>

datatype EventType = MARKET | SIGNAL | ORDER | FILL

datatype OrderType = OrderType_MARKET | LIMIT | STOP

datatype OrderDirection = BUY | SELL

subsection \<open>Errors\<close>

text \<open>
  \<open>DataError\<close> and \<open>ConfigurationError\<close> are the two error classes of the
  specification (section 7). \<open>PureVirtualCalled\<close> is the failure raised by
  \<^verbatim>\<open>PYBIND11_OVERRIDE_PURE\<close> when no Python override exists, \<open>CastError\<close> the failure
  of converting a Python result to the C++ return type, and \<open>PythonException\<close> an
  exception escaping from a Python method.
\<close>

datatype error =
    DataError
  | ConfigurationError
  | PureVirtualCalled string
  | CastError
  | PythonException string

subsection \<open>Event classes\<close>

text \<open>
  Modelled from the spec: the fields of the classes \<^verbatim>\<open>MarketEvent\<close>, \<^verbatim>\<open>SignalEvent\<close>,
  \<^verbatim>\<open>OrderEvent\<close> and \<^verbatim>\<open>FillEvent\<close>, which the wrapper only forward-declares
  (lines 13-16). Section 3 lists the fields; their types are those of the constructor
  signatures named by \<^verbatim>\<open>py::init<...>\<close> (wrapper lines 82, 92, 102, 114).
\<close>

record MarketEvent =
  me_symbol :: string
  me_price :: real
  me_timestamp :: "64 word"
  me_volume :: "32 word"

record SignalEvent =
  se_symbol :: string
  se_direction :: OrderDirection
  se_strength :: real
  se_strategy_id :: string

record OrderEvent =
  oe_symbol :: string
  oe_order_type :: OrderType
  oe_quantity :: "32 word"
  oe_direction :: OrderDirection
  oe_price :: real

record FillEvent =
  fe_symbol :: string
  fe_quantity :: "32 word"
  fe_direction :: OrderDirection
  fe_fill_price :: real
  fe_commission :: real
  fe_timestamp :: "64 word"

text \<open>
  Modelled from the spec: the constructor of \<^verbatim>\<open>MarketEvent\<close>, missing from the
  source. Section 7: a negative price or volume is rejected with a data error at event
  construction, never clamped; section 3: otherwise the event carries the arguments.
\<close>

definition MarketEvent_ctor ::
  "string \<Rightarrow> real \<Rightarrow> 64 word \<Rightarrow> 32 word \<Rightarrow> error + MarketEvent" where
  "MarketEvent_ctor symbol price timestamp volume =
     (if price < 0 \<or> volume <s 0 then Inl DataError
      else Inr \<lparr>me_symbol = symbol, me_price = price,
                me_timestamp = timestamp, me_volume = volume\<rparr>)"

text \<open>
  Modelled from the spec: the constructor of \<^verbatim>\<open>SignalEvent\<close>, missing from the
  source. Section 3: the event carries the arguments; the strength is in a range the
  strategy defines and the strategy id may be empty, so nothing is rejected.
\<close>

definition SignalEvent_ctor ::
  "string \<Rightarrow> OrderDirection \<Rightarrow> real \<Rightarrow> string \<Rightarrow> SignalEvent" where
  "SignalEvent_ctor symbol direction strength strategy_id =
     \<lparr>se_symbol = symbol, se_direction = direction,
      se_strength = strength, se_strategy_id = strategy_id\<rparr>"

text \<open>
  Modelled from the spec: the constructor of \<^verbatim>\<open>OrderEvent\<close>, missing from the
  source. Section 7: a negative quantity or price is rejected with a data error.
\<close>

definition OrderEvent_ctor ::
  "string \<Rightarrow> OrderType \<Rightarrow> 32 word \<Rightarrow> OrderDirection \<Rightarrow> real \<Rightarrow> error + OrderEvent" where
  "OrderEvent_ctor symbol order_type quantity direction price =
     (if quantity <s 0 \<or> price < 0 then Inl DataError
      else Inr \<lparr>oe_symbol = symbol, oe_order_type = order_type, oe_quantity = quantity,
                oe_direction = direction, oe_price = price\<rparr>)"

text \<open>
  Modelled from the spec: the constructor of \<^verbatim>\<open>FillEvent\<close>, missing from the
  source. Section 7: a negative quantity or price is rejected with a data error;
  section 3: otherwise the event carries the arguments.
\<close>

definition FillEvent_ctor ::
  "string \<Rightarrow> 32 word \<Rightarrow> OrderDirection \<Rightarrow> real \<Rightarrow> real \<Rightarrow> 64 word \<Rightarrow> error + FillEvent" where
  "FillEvent_ctor symbol quantity direction fill_price commission timestamp =
     (if quantity <s 0 \<or> fill_price < 0 then Inl DataError
      else Inr \<lparr>fe_symbol = symbol, fe_quantity = quantity, fe_direction = direction,
                fe_fill_price = fill_price, fe_commission = commission,
                fe_timestamp = timestamp\<rparr>)"

text \<open>
  Modelled from the spec: the base class \<^verbatim>\<open>Event\<close> and its \<^verbatim>\<open>getType\<close>, missing from
  the source. Section 3: an event is a tagged record, and its type is its tag.
\<close>

datatype Event =
    Market MarketEvent
  | Signal SignalEvent
  | Order OrderEvent
  | Fill FillEvent

fun getType :: "Event \<Rightarrow> EventType" where
  "getType (Market _) = MARKET"
| "getType (Signal _) = SIGNAL"
| "getType (Order _) = ORDER"
| "getType (Fill _) = FILL"

text \<open>
  Modelled from the spec: the accessors bound at wrapper lines 77, 84-87, 94-97 and 122,
  missing from the source. Section 3: events are immutable once constructed, so an
  accessor returns the field as constructed.
\<close>

definition MarketEvent_getType :: "MarketEvent \<Rightarrow> EventType" where
  "MarketEvent_getType e = getType (Market e)"

definition MarketEvent_getSymbol :: "MarketEvent \<Rightarrow> string" where
  "MarketEvent_getSymbol e = me_symbol e"

definition MarketEvent_getPrice :: "MarketEvent \<Rightarrow> real" where
  "MarketEvent_getPrice e = me_price e"

definition MarketEvent_getTimestamp :: "MarketEvent \<Rightarrow> 64 word" where
  "MarketEvent_getTimestamp e = me_timestamp e"

definition MarketEvent_getVolume :: "MarketEvent \<Rightarrow> 32 word" where
  "MarketEvent_getVolume e = me_volume e"

definition SignalEvent_getType :: "SignalEvent \<Rightarrow> EventType" where
  "SignalEvent_getType e = getType (Signal e)"

definition SignalEvent_getSymbol :: "SignalEvent \<Rightarrow> string" where
  "SignalEvent_getSymbol e = se_symbol e"

definition SignalEvent_getDirection :: "SignalEvent \<Rightarrow> OrderDirection" where
  "SignalEvent_getDirection e = se_direction e"

definition SignalEvent_getStrength :: "SignalEvent \<Rightarrow> real" where
  "SignalEvent_getStrength e = se_strength e"

definition SignalEvent_getStrategyId :: "SignalEvent \<Rightarrow> string" where
  "SignalEvent_getStrategyId e = se_strategy_id e"

definition FillEvent_getTimestamp :: "FillEvent \<Rightarrow> 64 word" where
  "FillEvent_getTimestamp e = fe_timestamp e"

subsection \<open>Bound constructors and factories\<close>

text \<open>
  A \<^verbatim>\<open>py::arg("x") = d\<close> makes the argument optional for the Python caller; an
  omitted argument is \<open>None\<close> here and the binding substitutes \<open>d\<close> before it calls
  the C++ constructor.
\<close>

definition py_arg :: "'a \<Rightarrow> 'a option \<Rightarrow> 'a" where
  "py_arg d x = (case x of None \<Rightarrow> d | Some v \<Rightarrow> v)"

text \<open>Wrapper lines 82-83.\<close>

definition py_MarketEvent ::
  "string \<Rightarrow> real \<Rightarrow> 64 word \<Rightarrow> 32 word option \<Rightarrow> error + MarketEvent" where
  "py_MarketEvent symbol price timestamp volume =
     MarketEvent_ctor symbol price timestamp (py_arg 0 volume)"

text \<open>Wrapper lines 92-93.\<close>

definition py_SignalEvent ::
  "string \<Rightarrow> OrderDirection \<Rightarrow> real option \<Rightarrow> string option \<Rightarrow> SignalEvent" where
  "py_SignalEvent symbol direction strength strategy_id =
     SignalEvent_ctor symbol direction (py_arg 1 strength) (py_arg [] strategy_id)"

text \<open>Wrapper lines 102-104.\<close>

definition py_OrderEvent ::
  "string \<Rightarrow> OrderType \<Rightarrow> 32 word \<Rightarrow> OrderDirection \<Rightarrow> real option \<Rightarrow> error + OrderEvent" where
  "py_OrderEvent symbol order_type quantity direction price =
     OrderEvent_ctor symbol order_type quantity direction (py_arg 0 price)"

text \<open>Wrapper lines 114-116.\<close>

definition py_FillEvent ::
  "string \<Rightarrow> 32 word \<Rightarrow> OrderDirection \<Rightarrow> real \<Rightarrow> real option \<Rightarrow> 64 word option
     \<Rightarrow> error + FillEvent" where
  "py_FillEvent symbol quantity direction fill_price commission timestamp =
     FillEvent_ctor symbol quantity direction fill_price
       (py_arg 0 commission) (py_arg 0 timestamp)"

text \<open>
  Wrapper lines 175-180: the lambda calls \<^verbatim>\<open>std::make_shared<MarketEvent>\<close> on its four
  arguments, the last with default 0.
\<close>

definition create_market_event ::
  "string \<Rightarrow> real \<Rightarrow> 64 word \<Rightarrow> 32 word option \<Rightarrow> error + MarketEvent" where
  "create_market_event symbol price timestamp volume =
     (let volume' = py_arg 0 volume
      in MarketEvent_ctor symbol price timestamp volume')"

text \<open>Wrapper lines 182-187.\<close>

definition create_signal_event ::
  "string \<Rightarrow> OrderDirection \<Rightarrow> real option \<Rightarrow> string option \<Rightarrow> SignalEvent" where
  "create_signal_event symbol direction strength strategy_id =
     (let strength' = py_arg 1 strength;
          strategy_id' = py_arg [] strategy_id
      in SignalEvent_ctor symbol direction strength' strategy_id')"

subsection \<open>The trampoline class \<^verbatim>\<open>PyStrategy\<close> (wrapper lines 31-51)\<close>

text \<open>
  A Python object is seen through the methods its Python class defines, by name. A
  Python method takes its arguments and the Python-side state \<open>'w\<close>, and returns a
  Python object or raises, leaving a new state.
\<close>

datatype pyobj =
    PyNone
  | PyStr string
  | PyInt int
  | PyFloat real
  | PyMarketEvent MarketEvent

type_synonym 'w pymethod = "pyobj list \<Rightarrow> 'w \<Rightarrow> (error + pyobj) \<times> 'w"

record 'w pyinstance =
  py_methods :: "string \<rightharpoonup> 'w pymethod"

text \<open>
  \<^verbatim>\<open>pybind11::get_override(this, name)\<close>: the Python-defined method of that name, if the
  object's class has one.
\<close>

definition get_override :: "'w pyinstance \<Rightarrow> string \<Rightarrow> 'w pymethod option" where
  "get_override self name = py_methods self name"

text \<open>
  \<^verbatim>\<open>PYBIND11_OVERRIDE_PURE(void, Strategy, calculateSignals, market_event)\<close>: look the
  override up under the C++ name, call it on the converted argument and drop its
  result; without an override, fail with "Tried to call pure virtual function".
\<close>

definition PyStrategy_calculateSignals ::
  "'w pyinstance \<Rightarrow> MarketEvent \<Rightarrow> 'w \<Rightarrow> (error + unit) \<times> 'w" where
  "PyStrategy_calculateSignals self market_event w =
     (case get_override self ''calculateSignals'' of
        Some override \<Rightarrow>
          (case override [PyMarketEvent market_event] w of
             (Inl e, w') \<Rightarrow> (Inl e, w')
           | (Inr o_res, w') \<Rightarrow> (Inr (), w'))
      | None \<Rightarrow> (Inl (PureVirtualCalled ''Strategy::calculateSignals''), w))"

text \<open>
  \<^verbatim>\<open>PYBIND11_OVERRIDE_PURE(std::string, Strategy, getName)\<close>: as above, and the result
  is cast to \<^verbatim>\<open>std::string\<close>, which fails on anything but a Python string.
\<close>

definition PyStrategy_getName ::
  "'w pyinstance \<Rightarrow> 'w \<Rightarrow> (error + string) \<times> 'w" where
  "PyStrategy_getName self w =
     (case get_override self ''getName'' of
        Some override \<Rightarrow>
          (case override [] w of
             (Inl e, w') \<Rightarrow> (Inl e, w')
           | (Inr (PyStr s), w') \<Rightarrow> (Inr s, w')
           | (Inr _, w') \<Rightarrow> (Inl CastError, w'))
      | None \<Rightarrow> (Inl (PureVirtualCalled ''Strategy::getName''), w))"

subsection \<open>The built-in moving-average strategy\<close>

text \<open>
  Modelled from the spec: the state of the class \<^verbatim>\<open>SMAStrategy\<close>, which the wrapper
  only forward-declares (line 18). Section 3: a fixed window size and a rolling price
  history per symbol.
\<close>

record SMAStrategy =
  window_size :: "32 word"
  price_history :: "(string \<times> real list) list"

text \<open>
  Modelled from the spec: the constructor of \<^verbatim>\<open>SMAStrategy\<close>, missing from the
  source. Section 7: a window size \<open>\<le> 0\<close> is a configuration error.
\<close>

definition SMAStrategy_ctor :: "32 word \<Rightarrow> error + SMAStrategy" where
  "SMAStrategy_ctor window =
     (if window \<le>s 0 then Inl ConfigurationError
      else Inr \<lparr>window_size = window, price_history = []\<rparr>)"

text \<open>Wrapper line 142.\<close>

definition py_SMAStrategy :: "32 word option \<Rightarrow> error + SMAStrategy" where
  "py_SMAStrategy window = SMAStrategy_ctor (py_arg 20 window)"

text \<open>
  Modelled from the spec: the history kept for a symbol (section 4.2), empty for a
  symbol not seen yet.
\<close>

definition prices_of :: "SMAStrategy \<Rightarrow> string \<Rightarrow> real list" where
  "prices_of st symbol =
     (case map_of (price_history st) symbol of None \<Rightarrow> [] | Some ps \<Rightarrow> ps)"

text \<open>
  Modelled from the spec: \<^verbatim>\<open>SMAStrategy::calculateSignals\<close>, missing from the source.
  Section 4.2: the strategy keeps, per symbol, the last \<open>window_size\<close> prices; once
  that history is full it compares the current price with the mean of the history and
  decides BUY, SELL or no signal; it must not emit before the window is filled. The
  signal is built with the default strength and strategy id of wrapper line 93.
\<close>

definition SMAStrategy_calculateSignals ::
  "MarketEvent \<Rightarrow> SMAStrategy \<Rightarrow> SignalEvent list \<times> SMAStrategy" where
  "SMAStrategy_calculateSignals market_event st =
     (let symbol = me_symbol market_event;
          price = me_price market_event;
          w = unat (window_size st);
          seen = prices_of st symbol @ [price];
          hist = drop (length seen - w) seen;
          st' = st\<lparr>price_history := AList.update symbol hist (price_history st)\<rparr>
      in if length hist < w then ([], st')
         else
           (let mean = sum_list hist / real w
            in if mean < price then ([py_SignalEvent symbol BUY None None], st')
               else if price < mean then ([py_SignalEvent symbol SELL None None], st')
               else ([], st')))"

text \<open>
  Feeding a sequence of market events to the strategy, one call each, keeping what each
  call emitted.
\<close>

fun SMAStrategy_feed ::
  "MarketEvent list \<Rightarrow> SMAStrategy \<Rightarrow> SignalEvent list list \<times> SMAStrategy" where
  "SMAStrategy_feed [] st = ([], st)"
| "SMAStrategy_feed (m # ms) st =
     (let (sigs, st') = SMAStrategy_calculateSignals m st;
          (rest, st'') = SMAStrategy_feed ms st'
      in (sigs # rest, st''))"

subsection \<open>Strategies as the engine sees them\<close>

text \<open>
  Modelled from the spec: the interface \<^verbatim>\<open>Strategy\<close>, which the wrapper only
  forward-declares (line 17). Section 4.2: it is polymorphic over the built-in variant
  and user-supplied ones, and a strategy given an identical sequence of market events
  must produce an identical sequence of signals, so a user-supplied strategy is a
  function of the events it has seen.
\<close>

datatype Strategy =
    SMA SMAStrategy
  | Custom "MarketEvent list \<Rightarrow> SignalEvent list" "MarketEvent list"

text \<open>
  Modelled from the spec: \<^verbatim>\<open>Strategy::calculateSignals\<close> as the engine calls it, by
  variant (section 4.2).
\<close>

fun Strategy_calculateSignals :: "MarketEvent \<Rightarrow> Strategy \<Rightarrow> SignalEvent list \<times> Strategy" where
  "Strategy_calculateSignals m (SMA st) =
     (let (sigs, st') = SMAStrategy_calculateSignals m st in (sigs, SMA st'))"
| "Strategy_calculateSignals m (Custom f seen) = (f (seen @ [m]), Custom f (seen @ [m]))"

text \<open>
  Modelled from the spec: section 4.1, a market event is forwarded to every registered
  strategy, in registration order.
\<close>

fun all_calculateSignals ::
  "MarketEvent \<Rightarrow> Strategy list \<Rightarrow> SignalEvent list \<times> Strategy list" where
  "all_calculateSignals m [] = ([], [])"
| "all_calculateSignals m (s # ss) =
     (let (sigs, s') = Strategy_calculateSignals m s;
          (rest, ss') = all_calculateSignals m ss
      in (sigs @ rest, s' # ss'))"

subsection \<open>Position and Portfolio\<close>

text \<open>
  Modelled from the spec: the fields of the class \<^verbatim>\<open>Position\<close>, which the wrapper only
  forward-declares (line 22). Section 3: a symbol, a signed integer quantity, a
  volume-weighted average entry price and a market value.
\<close>

record Position =
  pos_symbol :: string
  pos_quantity :: int
  pos_avg_price :: real
  pos_market_value :: real

text \<open>
  Modelled from the spec: the constructor of \<^verbatim>\<open>Position\<close> (its signature at wrapper
  line 127), missing from the source: a flat position in the symbol.
\<close>

definition Position_ctor :: "string \<Rightarrow> Position" where
  "Position_ctor symbol =
     \<lparr>pos_symbol = symbol, pos_quantity = 0, pos_avg_price = 0, pos_market_value = 0\<rparr>"

text \<open>
  Modelled from the spec: \<^verbatim>\<open>Position::updatePosition\<close>, missing from the source.
  Section 3: the quantity is signed, the average price is volume-weighted and the
  market value is the quantity times the latest known price; section 3 also asks that
  the value be recomputed whenever price or position changes. The average price of a
  position that becomes flat is 0; the specification is silent on it.
\<close>

definition Position_updatePosition :: "int \<Rightarrow> real \<Rightarrow> real \<Rightarrow> Position \<Rightarrow> Position" where
  "Position_updatePosition delta fill_price latest pos =
     (let q = pos_quantity pos + delta;
          avg = (if q = 0 then 0
                 else (real_of_int (pos_quantity pos) * pos_avg_price pos
                       + real_of_int delta * fill_price) / real_of_int q)
      in pos\<lparr>pos_quantity := q, pos_avg_price := avg,
              pos_market_value := real_of_int q * latest\<rparr>)"

text \<open>
  Modelled from the spec: the fields of the class \<^verbatim>\<open>Portfolio\<close>, which the wrapper
  only forward-declares (line 19). Section 3: the cash, a mapping from symbol to
  position and a mapping from symbol to latest known price.
\<close>

record Portfolio =
  cash :: real
  positions :: "(string \<times> Position) list"
  current_prices :: "(string \<times> real) list"

text \<open>
  Modelled from the spec: the constructor of \<^verbatim>\<open>Portfolio\<close>, missing from the source.
  Section 3: the cash starts at the initial capital; section 7: an invalid initial
  capital is a configuration error.
\<close>

definition Portfolio_ctor :: "real \<Rightarrow> error + Portfolio" where
  "Portfolio_ctor initial_capital =
     (if initial_capital \<le> 0 then Inl ConfigurationError
      else Inr \<lparr>cash = initial_capital, positions = [], current_prices = []\<rparr>)"

text \<open>Wrapper line 148.\<close>

definition py_Portfolio :: "real option \<Rightarrow> error + Portfolio" where
  "py_Portfolio initial_capital = Portfolio_ctor (py_arg 100000 initial_capital)"

text \<open>
  Modelled from the spec: \<^verbatim>\<open>Portfolio::getCurrentPrice\<close>, missing from the source: the
  latest known price of the symbol (section 6). A symbol with no known price reads as
  0; the specification is silent on it.
\<close>

definition Portfolio_getCurrentPrice :: "string \<Rightarrow> Portfolio \<Rightarrow> real" where
  "Portfolio_getCurrentPrice symbol p =
     (case map_of (current_prices p) symbol of None \<Rightarrow> 0 | Some v \<Rightarrow> v)"

text \<open>
  Modelled from the spec: \<^verbatim>\<open>Portfolio::updatePrice\<close>, missing from the source.
  Section 4.3: it updates the latest price and recomputes the affected position's
  market value.
\<close>

definition Portfolio_updatePrice :: "string \<Rightarrow> real \<Rightarrow> Portfolio \<Rightarrow> Portfolio" where
  "Portfolio_updatePrice symbol price p =
     (let prices' = AList.update symbol price (current_prices p);
          positions' =
            (case map_of (positions p) symbol of
               None \<Rightarrow> positions p
             | Some pos \<Rightarrow>
                 AList.update symbol
                   (pos\<lparr>pos_market_value := real_of_int (pos_quantity pos) * price\<rparr>)
                   (positions p))
      in p\<lparr>positions := positions', current_prices := prices'\<rparr>)"

text \<open>
  Modelled from the spec: \<^verbatim>\<open>Portfolio::updateFill\<close>, missing from the source.
  Section 4.3: quantity times fill price is subtracted from the cash for BUY and added
  for SELL, the commission is always subtracted, and the position's quantity and
  average price are updated.
\<close>

definition Portfolio_updateFill :: "FillEvent \<Rightarrow> Portfolio \<Rightarrow> Portfolio" where
  "Portfolio_updateFill fill p =
     (let symbol = fe_symbol fill;
          q = sint (fe_quantity fill);
          gross = real_of_int q * fe_fill_price fill;
          cash' = (case fe_direction fill of
                     BUY \<Rightarrow> cash p - gross - fe_commission fill
                   | SELL \<Rightarrow> cash p + gross - fe_commission fill);
          delta = (case fe_direction fill of BUY \<Rightarrow> q | SELL \<Rightarrow> - q);
          pos = (case map_of (positions p) symbol of
                   None \<Rightarrow> Position_ctor symbol | Some pos \<Rightarrow> pos);
          pos' = Position_updatePosition delta (fe_fill_price fill)
                   (Portfolio_getCurrentPrice symbol p) pos
      in p\<lparr>cash := cash', positions := AList.update symbol pos' (positions p)\<rparr>)"

text \<open>
  Modelled from the spec: \<^verbatim>\<open>Portfolio::getTotalValue\<close>, missing from the source.
  Section 3: the total value is the cash plus the sum of the positions' market values.
  The read returns its value together with the portfolio it leaves behind, so that
  "pure read" (section 4.3) is a statement about the second component.
\<close>

definition Portfolio_getTotalValue :: "Portfolio \<Rightarrow> real \<times> Portfolio" where
  "Portfolio_getTotalValue p =
     (cash p + sum_list (map (\<lambda>(symbol, pos). pos_market_value pos) (positions p)), p)"

text \<open>
  The portfolio states a caller can reach: a constructed portfolio, and whatever
  \<open>update_fill\<close> and \<open>update_price\<close> make of a reachable one.
\<close>

inductive reachable :: "Portfolio \<Rightarrow> bool" where
  reachable_ctor: "Portfolio_ctor c = Inr p \<Longrightarrow> reachable p"
| reachable_fill: "reachable p \<Longrightarrow> reachable (Portfolio_updateFill fill p)"
| reachable_price: "reachable p \<Longrightarrow> reachable (Portfolio_updatePrice symbol price p)"

text \<open>
  The right-hand side of the equity invariant: cash plus, over the symbols held with a
  nonzero quantity, the quantity times the latest known price.
\<close>

definition holdings_value :: "Portfolio \<Rightarrow> real" where
  "holdings_value p =
     sum_list (map (\<lambda>(symbol, pos).
                  real_of_int (pos_quantity pos) * Portfolio_getCurrentPrice symbol p)
               (filter (\<lambda>(symbol, pos). pos_quantity pos \<noteq> 0) (positions p)))"

subsection \<open>ExecutionHandler\<close>

text \<open>
  Modelled from the spec: the class \<^verbatim>\<open>ExecutionHandler\<close>, which the wrapper only
  forward-declares (line 20), with its constructor and \<^verbatim>\<open>updatePrice\<close>. Section 4.4:
  \<open>update_price\<close> keeps the handler's view of the latest tradable price current.
\<close>

record ExecutionHandler =
  latest_prices :: "(string \<times> real) list"

definition ExecutionHandler_ctor :: ExecutionHandler where
  "ExecutionHandler_ctor = \<lparr>latest_prices = []\<rparr>"

definition ExecutionHandler_updatePrice ::
  "string \<Rightarrow> real \<Rightarrow> ExecutionHandler \<Rightarrow> ExecutionHandler" where
  "ExecutionHandler_updatePrice symbol price h =
     h\<lparr>latest_prices := AList.update symbol price (latest_prices h)\<rparr>"

text \<open>
  Section 4.3 leaves the sizing of an order to a configuration choice, and section 4.4
  the filling of one (slippage, commission, limit and stop orders). The two methods
  \<^verbatim>\<open>Portfolio::updateSignal\<close> and \<^verbatim>\<open>ExecutionHandler::executeOrder\<close>, missing from the
  source, are therefore parameters of the dispatch loop.
\<close>

record policies =
  updateSignal :: "SignalEvent \<Rightarrow> Portfolio \<Rightarrow> OrderEvent option"
  executeOrder :: "OrderEvent \<Rightarrow> ExecutionHandler \<Rightarrow> FillEvent option"

subsection \<open>BacktestingEngine\<close>

text \<open>
  Modelled from the spec: the state of the class \<^verbatim>\<open>BacktestingEngine\<close>, which the
  wrapper only forward-declares (line 21). Section 2: the engine holds the registered
  strategies, the pending feed, the portfolio and the execution handler. The type
  parameter is what the engine holds for a strategy: the strategy itself in the
  functional model of \<open>run\<close>, an owning pointer in the ownership model of the
  binding's \<open>add_strategy\<close>.
\<close>

record 's BacktestingEngine =
  strategies :: "'s list"
  feed :: "MarketEvent list"
  portfolio :: Portfolio
  execution_handler :: ExecutionHandler

text \<open>
  Modelled from the spec: the constructor of \<^verbatim>\<open>BacktestingEngine\<close>, missing from the
  source. It takes no argument (wrapper line 163), so the portfolio starts from the
  default capital of wrapper line 148, with nothing registered and an empty feed.
\<close>

definition BacktestingEngine_ctor :: "'s BacktestingEngine" where
  "BacktestingEngine_ctor =
     \<lparr>strategies = [], feed = [],
      portfolio = \<lparr>cash = 100000, positions = [], current_prices = []\<rparr>,
      execution_handler = ExecutionHandler_ctor\<rparr>"

text \<open>
  Modelled from the spec: \<^verbatim>\<open>BacktestingEngine::addStrategy\<close>, missing from the source.
  Section 4.1: the strategy is registered, ownership passing to the engine, and the
  registered strategies are kept in registration order.
\<close>

definition addStrategy :: "'s \<Rightarrow> 's BacktestingEngine \<Rightarrow> 's BacktestingEngine" where
  "addStrategy strategy e = e\<lparr>strategies := strategies e @ [strategy]\<rparr>"

text \<open>
  Modelled from the spec: \<^verbatim>\<open>BacktestingEngine::addMarketData\<close>, missing from the
  source. Section 4.1: it appends one market event to the pending feed in
  caller-supplied order and requires non-decreasing timestamps for events already
  appended with the same symbol; section 7: bad data is rejected at ingestion with a
  data error.
\<close>

definition addMarketData ::
  "string \<Rightarrow> real \<Rightarrow> 64 word \<Rightarrow> 32 word \<Rightarrow> 's BacktestingEngine
     \<Rightarrow> (error + unit) \<times> 's BacktestingEngine" where
  "addMarketData symbol price timestamp volume e =
     (case MarketEvent_ctor symbol price timestamp volume of
        Inl err \<Rightarrow> (Inl err, e)
      | Inr ev \<Rightarrow>
          if list_ex (\<lambda>prev. me_symbol prev = symbol \<and> timestamp <s me_timestamp prev)
               (feed e)
          then (Inl DataError, e)
          else (Inr (), e\<lparr>feed := feed e @ [ev]\<rparr>))"

text \<open>Wrapper lines 170-171.\<close>

definition add_market_data ::
  "string \<Rightarrow> real \<Rightarrow> 64 word \<Rightarrow> 32 word option \<Rightarrow> 's BacktestingEngine
     \<Rightarrow> (error + unit) \<times> 's BacktestingEngine" where
  "add_market_data symbol price timestamp volume e =
     addMarketData symbol price timestamp (py_arg 0 volume) e"

text \<open>The number of queued events of one type, by which the dispatch loop terminates.\<close>

fun count_tag :: "EventType \<Rightarrow> Event list \<Rightarrow> nat" where
  "count_tag t q = length (filter (\<lambda>ev. getType ev = t) q)"

text \<open>
  Modelled from the spec: the dispatch loop inside \<^verbatim>\<open>BacktestingEngine::run\<close>, missing
  from the source. Section 4.1: pop the front event and switch on its tag; a market
  event goes to every strategy and to the price updates of portfolio and execution
  handler, a signal to the portfolio, an order to the execution handler, a fill to the
  portfolio; events that a component produces go to the back of the queue; the loop
  ends when the queue is empty.
\<close>

function dispatch ::
  "policies \<Rightarrow> Event list \<Rightarrow> Strategy BacktestingEngine \<Rightarrow> Strategy BacktestingEngine" where
  "dispatch pol [] e = e"
| "dispatch pol (Market m # q) e =
     (let (sigs, strategies') = all_calculateSignals m (strategies e);
          e' = e\<lparr>strategies := strategies',
                 portfolio := Portfolio_updatePrice (me_symbol m) (me_price m) (portfolio e),
                 execution_handler :=
                   ExecutionHandler_updatePrice (me_symbol m) (me_price m)
                     (execution_handler e)\<rparr>
      in dispatch pol (q @ map Signal sigs) e')"
| "dispatch pol (Signal s # q) e =
     (case updateSignal pol s (portfolio e) of
        None \<Rightarrow> dispatch pol q e
      | Some ord \<Rightarrow> dispatch pol (q @ [Order ord]) e)"
| "dispatch pol (Order ord # q) e =
     (case executeOrder pol ord (execution_handler e) of
        None \<Rightarrow> dispatch pol q e
      | Some fill \<Rightarrow> dispatch pol (q @ [Fill fill]) e)"
| "dispatch pol (Fill fill # q) e =
     dispatch pol q (e\<lparr>portfolio := Portfolio_updateFill fill (portfolio e)\<rparr>)"
  by pat_completeness auto
termination
  by (relation "measures [\<lambda>(pol, q, e). count_tag MARKET q, \<lambda>(pol, q, e). count_tag SIGNAL q,
                          \<lambda>(pol, q, e). count_tag ORDER q, \<lambda>(pol, q, e). length q]")
     auto

text \<open>
  Modelled from the spec: \<^verbatim>\<open>BacktestingEngine::run\<close>, missing from the source. Sections
  6 and 7: it fails with a configuration error if no strategy is registered, before
  anything is dispatched. Section 4.1: the feed is taken in feed order, one tick at a
  time, and everything derived from a tick is drained before the next tick is
  dispatched. An empty feed is a no-op success.
\<close>

definition run ::
  "policies \<Rightarrow> Strategy BacktestingEngine \<Rightarrow> (error + unit) \<times> Strategy BacktestingEngine" where
  "run pol e =
     (if strategies e = [] then (Inl ConfigurationError, e)
      else (Inr (), foldl (\<lambda>e' m. dispatch pol [Market m] e') (e\<lparr>feed := []\<rparr>) (feed e)))"

subsection \<open>Ownership in the binding's \<^verbatim>\<open>add_strategy\<close> (wrapper lines 164-169)\<close>

text \<open>
  The store holds, for each heap object, the use count of the control block that the
  \<^verbatim>\<open>std::shared_ptr\<close>s to it share, and the number of times \<^verbatim>\<open>delete\<close> has run on it.
  A \<^verbatim>\<open>std::shared_ptr\<close> or \<^verbatim>\<open>std::unique_ptr\<close> is the address it holds, or \<open>None\<close>
  when empty.
\<close>

type_synonym addr = nat

record store =
  use_count :: "addr \<Rightarrow> nat"
  deletions :: "addr \<Rightarrow> nat"

type_synonym shared_ptr = "addr option"

type_synonym unique_ptr = "addr option"

definition delete_object :: "addr \<Rightarrow> store \<Rightarrow> store" where
  "delete_object a h = h\<lparr>deletions := (deletions h)(a := deletions h a + 1)\<rparr>"

text \<open>
  Dropping one shared reference: the use count goes down, and the object is deleted
  when it reaches zero.
\<close>

definition shared_release :: "shared_ptr \<Rightarrow> store \<Rightarrow> store" where
  "shared_release sp h =
     (case sp of
        None \<Rightarrow> h
      | Some a \<Rightarrow>
          (let n = use_count h a - 1;
               h' = h\<lparr>use_count := (use_count h)(a := n)\<rparr>
           in if n = 0 then delete_object a h' else h'))"

text \<open>Copying a \<^verbatim>\<open>std::shared_ptr\<close>: one more reference.\<close>

definition shared_copy :: "shared_ptr \<Rightarrow> store \<Rightarrow> shared_ptr \<times> store" where
  "shared_copy sp h =
     (case sp of
        None \<Rightarrow> (None, h)
      | Some a \<Rightarrow> (Some a, h\<lparr>use_count := (use_count h)(a := use_count h a + 1)\<rparr>))"

text \<open>\<^verbatim>\<open>get()\<close> returns the raw pointer and leaves the reference in place.\<close>

definition shared_get :: "shared_ptr \<Rightarrow> addr option" where
  "shared_get sp = sp"

text \<open>\<^verbatim>\<open>reset()\<close> drops this reference and leaves the pointer empty.\<close>

definition shared_reset :: "shared_ptr \<Rightarrow> store \<Rightarrow> shared_ptr \<times> store" where
  "shared_reset sp h = (None, shared_release sp h)"

text \<open>The destructor of a \<^verbatim>\<open>std::unique_ptr\<close> deletes what it holds.\<close>

definition unique_ptr_dtor :: "unique_ptr \<Rightarrow> store \<Rightarrow> store" where
  "unique_ptr_dtor up h = (case up of None \<Rightarrow> h | Some a \<Rightarrow> delete_object a h)"

text \<open>
  The lambda of wrapper lines 164-169, statement by statement; at the end of its
  scope the parameter \<open>strategy\<close> is destroyed, and the moved-from
  \<open>unique_strategy\<close> is empty.
\<close>

definition add_strategy ::
  "unique_ptr BacktestingEngine \<Rightarrow> shared_ptr \<Rightarrow> store
     \<Rightarrow> unique_ptr BacktestingEngine \<times> store" where
  "add_strategy self strategy h =
     (let unique_strategy = shared_get strategy;
          (strategy', h') = shared_reset strategy h;
          self' = addStrategy unique_strategy self;
          h'' = shared_release strategy' h'
      in (self', h''))"

text \<open>
  A call from Python: the argument is a copy of the holder that the Python object keeps
  (the class is bound with holder \<^verbatim>\<open>std::shared_ptr<Strategy>\<close>, wrapper line 135), and
  the Python object keeps its own.
\<close>

definition py_add_strategy ::
  "unique_ptr BacktestingEngine \<Rightarrow> shared_ptr \<Rightarrow> store
     \<Rightarrow> unique_ptr BacktestingEngine \<times> store" where
  "py_add_strategy self holder h =
     (let (arg, h') = shared_copy holder h in add_strategy self arg h')"

text \<open>Destroying the engine destroys the owning pointers it holds.\<close>

definition BacktestingEngine_dtor :: "unique_ptr BacktestingEngine \<Rightarrow> store \<Rightarrow> store" where
  "BacktestingEngine_dtor e h = foldl (\<lambda>h' up. unique_ptr_dtor up h') h (strategies e)"

text \<open>
  A freshly constructed Python strategy object at address \<open>a\<close>: one reference, held by
  the Python object, and no deletion yet.
\<close>

definition new_strategy_object :: "addr \<Rightarrow> store \<Rightarrow> shared_ptr \<times> store" where
  "new_strategy_object a h =
     (Some a, h\<lparr>use_count := (use_count h)(a := 1), deletions := (deletions h)(a := 0)\<rparr>)"

definition empty_store :: store where
  "empty_store = \<lparr>use_count = (\<lambda>a. 0), deletions = (\<lambda>a. 0)\<rparr>"

text \<open>
  The life of a program that registers one strategy: construct the strategy and the
  engine, call \<open>add_strategy\<close>, then let the Python object and the engine go, in
  either order. The result is the engine and the store after the call, and the store
  at the end.
\<close>

definition register_and_exit ::
  "addr \<Rightarrow> bool \<Rightarrow> unique_ptr BacktestingEngine \<times> store \<times> store" where
  "register_and_exit a engine_first =
     (let (holder, h0) = new_strategy_object a empty_store;
          (e, h1) = py_add_strategy BacktestingEngine_ctor holder h0;
          h2 = (if engine_first
                then shared_release holder (BacktestingEngine_dtor e h1)
                else BacktestingEngine_dtor e (shared_release holder h1))
      in (e, h1, h2))"

subsection \<open>Sample data\<close>

text \<open>Concrete inputs on which the theorems below are exercised.\<close>

definition tick :: "real \<Rightarrow> 64 word \<Rightarrow> MarketEvent" where
  "tick price timestamp =
     \<lparr>me_symbol = ''AAPL'', me_price = price, me_timestamp = timestamp, me_volume = 0\<rparr>"

text \<open>
  Scenario A of the specification: capital 100000, two AAPL ticks at 100 and 105, then
  a fill of a BUY of 10 shares at 105 with no commission.
\<close>

definition scenario_A :: Portfolio where
  "scenario_A =
     Portfolio_updateFill
       \<lparr>fe_symbol = ''AAPL'', fe_quantity = 10, fe_direction = BUY, fe_fill_price = 105,
        fe_commission = 0, fe_timestamp = 0\<rparr>
       (Portfolio_updatePrice ''AAPL'' 105
          (Portfolio_updatePrice ''AAPL'' 100
             \<lparr>cash = 100000, positions = [], current_prices = []\<rparr>))"

text \<open>An engine whose feed holds one AAPL tick with timestamp 5.\<close>

definition engine_with_tick :: "Strategy BacktestingEngine" where
  "engine_with_tick = BacktestingEngine_ctor\<lparr>feed := [tick 100 5]\<rparr>"

text \<open>Fixed sizing of 10 shares at market, filled at the latest price with no commission.\<close>

definition ten_shares :: policies where
  "ten_shares =
     \<lparr>updateSignal = (\<lambda>s p. Some \<lparr>oe_symbol = se_symbol s, oe_order_type = OrderType_MARKET,
                                  oe_quantity = 10, oe_direction = se_direction s,
                                  oe_price = 0\<rparr>),
      executeOrder = (\<lambda>ord h.
         case map_of (latest_prices h) (oe_symbol ord) of
           None \<Rightarrow> None
         | Some price \<Rightarrow>
             Some \<lparr>fe_symbol = oe_symbol ord, fe_quantity = oe_quantity ord,
                   fe_direction = oe_direction ord, fe_fill_price = price,
                   fe_commission = 0, fe_timestamp = 0\<rparr>)\<rparr>"

text \<open>
  Scenario A as a run: a moving-average strategy with window 2 and the two AAPL ticks.
\<close>

definition scenario_engine :: "Strategy BacktestingEngine" where
  "scenario_engine =
     addStrategy (SMA \<lparr>window_size = 2, price_history = []\<rparr>)
       (snd (add_market_data ''AAPL'' 105 2 None
          (snd (add_market_data ''AAPL'' 100 1 None BacktestingEngine_ctor))))"




definition snake_case_strategy :: "nat pyinstance" where
  "snake_case_strategy =
     \<lparr>py_methods = [''calculate_signals'' \<mapsto> (\<lambda>args w. (Inr PyNone, Suc w)),
                     ''get_name'' \<mapsto> (\<lambda>args w. (Inr (PyStr ''mine''), w))]\<rparr>"

subsection \<open>The invariant behind the equity equation\<close>

text \<open>
  Every position is stored once, and its stored market value is its quantity times the
  latest known price of its symbol.
\<close>

definition consistent :: "Portfolio \<Rightarrow> bool" where
  "consistent p \<longleftrightarrow>
     distinct (map fst (positions p))
     \<and> (\<forall>s pos. map_of (positions p) s = Some pos \<longrightarrow>
          pos_market_value pos = real_of_int (pos_quantity pos) * Portfolio_getCurrentPrice s p)"

section \<open>Default arguments and factories\<close>

text \<open>
  C8: constructing a MarketEvent, or calling add_market_data, without a volume passes
  volume 0 to the C++ side and yields an event whose volume accessor returns 0;
  constructing a SignalEvent without a strength yields strength 1.0, and without a
  strategy id yields the empty string. The construction of the MarketEvent succeeds for
  every non-negative price, and the call to add_market_data for every such price and
  every timestamp not below those already in the feed for the symbol.
\<close>

theorem default_event_arguments:
  "py_MarketEvent symbol price timestamp None = MarketEvent_ctor symbol price timestamp 0
   \<and> (0 \<le> price \<longrightarrow>
        (\<exists>ev. py_MarketEvent symbol price timestamp None = Inr ev
              \<and> MarketEvent_getVolume ev = 0))
   \<and> add_market_data symbol price timestamp None e = addMarketData symbol price timestamp 0 e
   \<and> (0 \<le> price
        \<and> (\<forall>prev \<in> set (feed e). me_symbol prev = symbol
              \<longrightarrow> me_timestamp prev \<le>s timestamp) \<longrightarrow>
        (\<exists>ev. add_market_data symbol price timestamp None e
                 = (Inr (), e\<lparr>feed := feed e @ [ev]\<rparr>)
              \<and> MarketEvent_getVolume ev = 0))
   \<and> SignalEvent_getStrength (py_SignalEvent symbol direction None strategy_id) = 1
   \<and> SignalEvent_getStrategyId (py_SignalEvent symbol direction strength None) = []"
  by (auto simp: py_MarketEvent_def MarketEvent_ctor_def py_arg_def MarketEvent_getVolume_def
      add_market_data_def addMarketData_def list_ex_iff SignalEvent_getStrength_def
      SignalEvent_getStrategyId_def py_SignalEvent_def SignalEvent_ctor_def)

theorem default_event_arguments_witness:
  "(0::real) \<le> 100
   \<and> (\<exists>ev. py_MarketEvent ''AAPL'' 100 7 None = Inr ev \<and> MarketEvent_getVolume ev = 0)
   \<and> (\<exists>ev. add_market_data ''AAPL'' 100 7 None engine_with_tick
              = (Inr (), engine_with_tick\<lparr>feed := [tick 100 5, ev]\<rparr>)
           \<and> MarketEvent_getVolume ev = 0)"
proof -
  have price: "(0::real) \<le> 100" by simp
  have later: "\<forall>prev \<in> set (feed engine_with_tick).
                 me_symbol prev = ''AAPL'' \<longrightarrow> me_timestamp prev \<le>s 7"
    by (simp add: engine_with_tick_def tick_def word_sle_eq)
  have feed: "feed engine_with_tick = [tick 100 5]" by (simp add: engine_with_tick_def)
  from price later
    default_event_arguments
      [where symbol = "''AAPL''" and price = 100 and timestamp = 7
         and e = engine_with_tick and direction = BUY and strategy_id = None
         and strength = None]
  have "(\<exists>ev. py_MarketEvent ''AAPL'' 100 7 None = Inr ev \<and> MarketEvent_getVolume ev = 0)
      \<and> (\<exists>ev. add_market_data ''AAPL'' 100 7 None engine_with_tick
                 = (Inr (), engine_with_tick\<lparr>feed := feed engine_with_tick @ [ev]\<rparr>)
              \<and> MarketEvent_getVolume ev = 0)"
    by blast
  with price feed show ?thesis by simp
qed

text \<open>
  C9: for all arguments, given or omitted, create_market_event returns what the bound
  MarketEvent constructor returns (the same error, or an event on which get_type,
  get_symbol, get_price, get_timestamp and get_volume agree), and create_signal_event
  returns an event on which every accessor agrees with the bound SignalEvent
  constructor's.
\<close>

theorem factories_agree_with_constructors:
  "map_sum id (\<lambda>ev. (MarketEvent_getType ev, MarketEvent_getSymbol ev, MarketEvent_getPrice ev,
                     MarketEvent_getTimestamp ev, MarketEvent_getVolume ev))
     (create_market_event symbol price timestamp volume)
   = map_sum id (\<lambda>ev. (MarketEvent_getType ev, MarketEvent_getSymbol ev,
                       MarketEvent_getPrice ev, MarketEvent_getTimestamp ev,
                       MarketEvent_getVolume ev))
       (py_MarketEvent symbol price timestamp volume)
   \<and> (let a = create_signal_event symbol direction strength strategy_id;
          b = py_SignalEvent symbol direction strength strategy_id
      in SignalEvent_getType a = SignalEvent_getType b
       \<and> SignalEvent_getSymbol a = SignalEvent_getSymbol b
       \<and> SignalEvent_getDirection a = SignalEvent_getDirection b
       \<and> SignalEvent_getStrength a = SignalEvent_getStrength b
       \<and> SignalEvent_getStrategyId a = SignalEvent_getStrategyId b)"
  by (simp add: create_market_event_def py_MarketEvent_def create_signal_event_def
      py_SignalEvent_def Let_def)

text \<open>
  C10: constructing a FillEvent without a timestamp passes timestamp 0 to the C++
  constructor and yields an event whose timestamp accessor returns 0; the construction
  succeeds for every non-negative quantity and fill price.
\<close>

theorem fill_event_default_timestamp:
  "py_FillEvent symbol quantity direction fill_price commission None
     = FillEvent_ctor symbol quantity direction fill_price (py_arg 0 commission) 0
   \<and> (0 \<le>s quantity \<and> 0 \<le> fill_price \<longrightarrow>
        (\<exists>ev. py_FillEvent symbol quantity direction fill_price commission None = Inr ev
              \<and> FillEvent_getTimestamp ev = 0))"
  by (auto simp: py_FillEvent_def FillEvent_ctor_def py_arg_def FillEvent_getTimestamp_def
      word_sle_eq word_sless_alt)

theorem fill_event_default_timestamp_witness:
  "(0::32 word) \<le>s 10 \<and> (0::real) \<le> 105
   \<and> (\<exists>ev. py_FillEvent ''AAPL'' 10 BUY 105 None None = Inr ev
           \<and> FillEvent_getTimestamp ev = 0)"
proof -
  have valid: "(0::32 word) \<le>s 10 \<and> (0::real) \<le> 105" by (simp add: word_sle_eq)
  with fill_event_default_timestamp
         [where symbol = "''AAPL''" and quantity = 10 and direction = BUY
            and fill_price = 105 and commission = None]
  show ?thesis by blast
qed

section \<open>Dispatch through the trampoline\<close>




text \<open>
  The override is looked up under the C++ method name. A Python class that defines
  \<open>calculate_signals\<close> and \<open>get_name\<close>, the names under which the module exposes the
  two methods, does not override them.
\<close>

lemma snake_case_not_dispatched:
  "PyStrategy_calculateSignals snake_case_strategy m w
     = (Inl (PureVirtualCalled ''Strategy::calculateSignals''), w)
   \<and> PyStrategy_getName snake_case_strategy w
     = (Inl (PureVirtualCalled ''Strategy::getName''), w)"
  by (simp add: PyStrategy_calculateSignals_def PyStrategy_getName_def get_override_def
      snake_case_strategy_def)

section \<open>Ownership after registration\<close>

text \<open>
  C2 asks that registration leave the engine the sole owner and that the strategy be
  destroyed exactly once. In the binding's add_strategy, \<open>reset()\<close> only drops the
  argument's reference: after the call the engine holds an owning pointer to the
  strategy while the Python object still holds a counted reference to it (use count 1),
  and once both are gone, in whichever order, the strategy has been deleted twice.
\<close>

theorem add_strategy_deletes_twice:
  "strategies (fst (register_and_exit a engine_first)) = [Some a]
   \<and> use_count (fst (snd (register_and_exit a engine_first))) a = 1
   \<and> deletions (fst (snd (register_and_exit a engine_first))) a = 0
   \<and> deletions (snd (snd (register_and_exit a engine_first))) a = 2"
  by (simp add: register_and_exit_def new_strategy_object_def empty_store_def
      py_add_strategy_def shared_copy_def add_strategy_def shared_get_def shared_reset_def
      shared_release_def addStrategy_def BacktestingEngine_ctor_def BacktestingEngine_dtor_def
      unique_ptr_dtor_def delete_object_def Let_def)

section \<open>Rejected input and configuration\<close>



text \<open>
  With a strategy registered the run goes through: on scenario A the second tick lies
  above the mean of the window, the BUY signal becomes an order of 10 shares and a fill
  at 105, and the portfolio ends as in the specification's scenario.
\<close>

lemma scenario_engine_eq:
  "scenario_engine =
     \<lparr>strategies = [SMA \<lparr>window_size = 2, price_history = []\<rparr>],
      feed = [tick 100 1, tick 105 2],
      portfolio = \<lparr>cash = 100000, positions = [], current_prices = []\<rparr>,
      execution_handler = \<lparr>latest_prices = []\<rparr>\<rparr>"
  by (simp add: scenario_engine_def addStrategy_def add_market_data_def addMarketData_def
      MarketEvent_ctor_def py_arg_def BacktestingEngine_ctor_def tick_def word_sless_alt
      ExecutionHandler_ctor_def)

lemma run_scenario_A:
  "fst (run ten_shares scenario_engine) = Inr ()
   \<and> portfolio (snd (run ten_shares scenario_engine)) = scenario_A
   \<and> feed (snd (run ten_shares scenario_engine)) = []"
  by (simp add: scenario_engine_eq run_def tick_def ten_shares_def scenario_A_def
      SMAStrategy_calculateSignals_def prices_of_def Let_def py_SignalEvent_def
      SignalEvent_ctor_def py_arg_def ExecutionHandler_updatePrice_def)

text \<open>
  C5: run on an engine with no registered strategy fails with a configuration error and
  leaves the engine as it was, so nothing has been dispatched; constructing an
  SMAStrategy with a window size \<open>\<le> 0\<close> fails with a configuration error, so there is
  no such strategy to register and run.
\<close>

theorem configuration_errors:
  "(strategies e = [] \<longrightarrow> run pol e = (Inl ConfigurationError, e))
   \<and> (window \<le>s 0 \<longrightarrow> py_SMAStrategy (Some window) = Inl ConfigurationError)"
  by (simp add: run_def py_SMAStrategy_def SMAStrategy_ctor_def py_arg_def)

theorem configuration_errors_witness:
  "strategies engine_with_tick = []
   \<and> run ten_shares engine_with_tick = (Inl ConfigurationError, engine_with_tick)
   \<and> (0 :: 32 word) \<le>s 0
   \<and> py_SMAStrategy (Some 0) = Inl ConfigurationError"
  using configuration_errors [of engine_with_tick ten_shares 0]
  by (simp add: engine_with_tick_def BacktestingEngine_ctor_def)

section \<open>Warm-up of the moving-average strategy\<close>

lemma calculateSignals_window [simp]:
  "window_size (snd (SMAStrategy_calculateSignals m st)) = window_size st"
  by (simp add: SMAStrategy_calculateSignals_def Let_def)

lemma calculateSignals_symbol:
  "sg \<in> set (fst (SMAStrategy_calculateSignals m st)) \<Longrightarrow> se_symbol sg = me_symbol m"
  by (auto simp: SMAStrategy_calculateSignals_def Let_def py_SignalEvent_def
      SignalEvent_ctor_def split: if_splits)

lemma prices_of_update:
  "prices_of (st\<lparr>price_history := AList.update k v (price_history st)\<rparr>) s
     = (if s = k then v else prices_of st s)"
  by (simp add: prices_of_def update_conv')

lemma calculateSignals_state:
  "snd (SMAStrategy_calculateSignals m st) =
     st\<lparr>price_history :=
          AList.update (me_symbol m)
            (drop (length (prices_of st (me_symbol m) @ [me_price m]) - unat (window_size st))
               (prices_of st (me_symbol m) @ [me_price m]))
            (price_history st)\<rparr>"
  by (simp add: SMAStrategy_calculateSignals_def Let_def)

lemma history_of_other_symbol:
  "me_symbol m \<noteq> symbol \<Longrightarrow>
   prices_of (snd (SMAStrategy_calculateSignals m st)) symbol = prices_of st symbol"
  by (simp only: calculateSignals_state prices_of_update) simp

lemma history_grows_by_one:
  "length (prices_of (snd (SMAStrategy_calculateSignals m st)) (me_symbol m))
     \<le> Suc (length (prices_of st (me_symbol m)))"
  by (simp only: calculateSignals_state prices_of_update) simp

lemma silent_while_short:
  "Suc (length (prices_of st (me_symbol m))) < unat (window_size st) \<Longrightarrow>
   fst (SMAStrategy_calculateSignals m st) = []"
  by (simp add: SMAStrategy_calculateSignals_def Let_def)

lemma length_SMAStrategy_feed [simp]: "length (fst (SMAStrategy_feed ms st)) = length ms"
  by (induction ms arbitrary: st) (simp_all add: split_beta Let_def)

text \<open>
  The statement generalised to any state of the strategy: what it has already stored
  for the symbol counts towards the window.
\<close>

lemma feed_warm_up:
  "i < length ms \<Longrightarrow>
   length (prices_of st symbol)
     + length (filter (\<lambda>m. me_symbol m = symbol) (take (Suc i) ms))
     < unat (window_size st) \<Longrightarrow>
   sg \<in> set (fst (SMAStrategy_feed ms st) ! i) \<Longrightarrow> se_symbol sg \<noteq> symbol"
proof (induction ms arbitrary: st i)
  case Nil
  then show ?case by simp
next
  case (Cons m ms)
  let ?st' = "snd (SMAStrategy_calculateSignals m st)"
  show ?case
  proof (cases i)
    case 0
    with Cons.prems(3) have sg: "sg \<in> set (fst (SMAStrategy_calculateSignals m st))"
      by (simp add: split_beta Let_def)
    show ?thesis
    proof
      assume "se_symbol sg = symbol"
      with calculateSignals_symbol [OF sg] have "me_symbol m = symbol" by simp
      with Cons.prems(2) 0
      have "Suc (length (prices_of st (me_symbol m))) < unat (window_size st)" by simp
      then have "fst (SMAStrategy_calculateSignals m st) = []" by (rule silent_while_short)
      with sg show False by simp
    qed
  next
    case (Suc j)
    with Cons.prems(1) have j: "j < length ms" by simp
    from Cons.prems(3) Suc have sg: "sg \<in> set (fst (SMAStrategy_feed ms ?st') ! j)"
      by (simp add: split_beta Let_def)
    have "length (prices_of ?st' symbol)
            + length (filter (\<lambda>m. me_symbol m = symbol) (take (Suc j) ms))
          < unat (window_size ?st')"
    proof (cases "me_symbol m = symbol")
      case True
      with history_grows_by_one [of m st]
      have "length (prices_of ?st' symbol) \<le> Suc (length (prices_of st symbol))" by simp
      with Cons.prems(2) Suc True show ?thesis by simp
    next
      case False
      with Cons.prems(2) Suc show ?thesis by (simp add: history_of_other_symbol)
    qed
    from Cons.IH [OF j this sg] show ?thesis .
  qed
qed

text \<open>
  C6: feed any sequence of MarketEvents to a freshly constructed SMAStrategy. At every
  event up to which fewer than window_size events for a symbol have been observed (that
  event included), the strategy emits no SignalEvent for that symbol.
\<close>

theorem SMAStrategy_silent_during_warm_up:
  assumes "SMAStrategy_ctor window = Inr st0"
    and "i < length ms"
    and "length (filter (\<lambda>m. me_symbol m = symbol) (take (Suc i) ms)) < unat window"
  shows "\<forall>sg \<in> set (fst (SMAStrategy_feed ms st0) ! i). SignalEvent_getSymbol sg \<noteq> symbol"
proof -
  from assms(1) have "st0 = \<lparr>window_size = window, price_history = []\<rparr>"
    by (simp add: SMAStrategy_ctor_def split: if_splits)
  then have "length (prices_of st0 symbol)
      + length (filter (\<lambda>m. me_symbol m = symbol) (take (Suc i) ms)) < unat (window_size st0)"
    using assms(3) by (simp add: prices_of_def)
  with assms(2) show ?thesis
    using feed_warm_up by (auto simp: SignalEvent_getSymbol_def)
qed

theorem SMAStrategy_silent_during_warm_up_witness:
  "SMAStrategy_ctor 3 = Inr \<lparr>window_size = 3, price_history = []\<rparr>
   \<and> (1::nat) < length [tick 100 1, tick 105 2, tick 110 3]
   \<and> length (filter (\<lambda>m. me_symbol m = ''AAPL'')
               (take (Suc 1) [tick 100 1, tick 105 2, tick 110 3])) < unat (3 :: 32 word)
   \<and> filter (\<lambda>sg. SignalEvent_getSymbol sg = ''AAPL'')
       (fst (SMAStrategy_feed [tick 100 1, tick 105 2, tick 110 3]
               \<lparr>window_size = 3, price_history = []\<rparr>) ! 1) = []"
proof -
  have a: "SMAStrategy_ctor 3 = Inr \<lparr>window_size = 3, price_history = []\<rparr>"
    by (simp add: SMAStrategy_ctor_def word_sle_eq)
  have b: "(1::nat) < length [tick 100 1, tick 105 2, tick 110 3]" by simp
  have c: "length (filter (\<lambda>m. me_symbol m = ''AAPL'')
                    (take (Suc 1) [tick 100 1, tick 105 2, tick 110 3])) < unat (3 :: 32 word)"
    by (simp add: tick_def)
  from SMAStrategy_silent_during_warm_up [OF a b c] a b c show ?thesis
    by (simp only: filter_empty_conv)
qed

text \<open>With the window full the strategy does speak: the third rising tick gives a BUY.\<close>

lemma SMAStrategy_emits_when_full:
  "fst (SMAStrategy_feed [tick 100 1, tick 105 2, tick 110 3]
          \<lparr>window_size = 3, price_history = []\<rparr>)
     = [[], [], [\<lparr>se_symbol = ''AAPL'', se_direction = BUY, se_strength = 1,
                  se_strategy_id = []\<rparr>]]"
  by (simp add: SMAStrategy_calculateSignals_def prices_of_def tick_def Let_def
      py_SignalEvent_def SignalEvent_ctor_def py_arg_def)

section \<open>The equity invariant of the portfolio\<close>

lemma getCurrentPrice_updatePrice:
  "Portfolio_getCurrentPrice s (Portfolio_updatePrice symbol price p)
     = (if s = symbol then price else Portfolio_getCurrentPrice s p)"
  by (simp add: Portfolio_getCurrentPrice_def Portfolio_updatePrice_def Let_def update_conv')

lemma getCurrentPrice_updateFill:
  "Portfolio_getCurrentPrice s (Portfolio_updateFill fill p) = Portfolio_getCurrentPrice s p"
  by (simp add: Portfolio_getCurrentPrice_def Portfolio_updateFill_def Let_def)

lemma positions_updatePrice:
  "map_of (positions (Portfolio_updatePrice symbol price p)) s
     = (if s = symbol
        then map_option
               (\<lambda>pos. pos\<lparr>pos_market_value := real_of_int (pos_quantity pos) * price\<rparr>)
               (map_of (positions p) symbol)
        else map_of (positions p) s)"
  by (simp add: Portfolio_updatePrice_def Let_def update_conv' split: option.splits)

lemma distinct_updatePrice:
  "distinct (map fst (positions p)) \<Longrightarrow>
   distinct (map fst (positions (Portfolio_updatePrice symbol price p)))"
  by (simp add: Portfolio_updatePrice_def Let_def distinct_update split: option.splits)

lemma consistent_ctor: "Portfolio_ctor c = Inr p \<Longrightarrow> consistent p"
  by (auto simp: Portfolio_ctor_def consistent_def split: if_splits)

lemma consistent_updatePrice:
  "consistent p \<Longrightarrow> consistent (Portfolio_updatePrice symbol price p)"
  unfolding consistent_def
  by (auto simp: getCurrentPrice_updatePrice positions_updatePrice distinct_updatePrice
      split: if_splits)

lemma updatePosition_value:
  "pos_market_value (Position_updatePosition delta fp latest pos)
     = real_of_int (pos_quantity (Position_updatePosition delta fp latest pos)) * latest"
  by (simp add: Position_updatePosition_def Let_def)

lemma positions_updateFill:
  "positions (Portfolio_updateFill fill p) =
     AList.update (fe_symbol fill)
       (Position_updatePosition
          (case fe_direction fill of
             BUY \<Rightarrow> sint (fe_quantity fill) | SELL \<Rightarrow> - sint (fe_quantity fill))
          (fe_fill_price fill) (Portfolio_getCurrentPrice (fe_symbol fill) p)
          (case map_of (positions p) (fe_symbol fill) of
             None \<Rightarrow> Position_ctor (fe_symbol fill) | Some pos \<Rightarrow> pos))
       (positions p)"
  by (simp add: Portfolio_updateFill_def Let_def)

lemma consistent_updateFill:
  "consistent p \<Longrightarrow> consistent (Portfolio_updateFill fill p)"
  unfolding consistent_def
  by (auto simp: getCurrentPrice_updateFill positions_updateFill distinct_update update_conv'
      updatePosition_value split: if_splits)

lemma reachable_consistent: "reachable p \<Longrightarrow> consistent p"
  by (induction rule: reachable.induct)
     (simp_all add: consistent_ctor consistent_updateFill consistent_updatePrice)

lemma consistent_total:
  assumes "consistent p"
  shows "fst (Portfolio_getTotalValue p) = cash p + holdings_value p"
proof -
  have stored: "pos_market_value pos
                  = real_of_int (pos_quantity pos) * Portfolio_getCurrentPrice s p"
    if "(s, pos) \<in> set (positions p)" for s pos
    using assms that by (simp add: consistent_def)
  have "sum_list (map (\<lambda>(s, pos). pos_market_value pos) (positions p))
      = sum_list (map (\<lambda>(s, pos). real_of_int (pos_quantity pos)
                                    * Portfolio_getCurrentPrice s p) (positions p))"
    by (rule arg_cong [where f = sum_list], rule map_cong) (auto simp: stored)
  also have "\<dots> = holdings_value p"
    unfolding holdings_value_def
    by (rule sum_list_map_filter [symmetric]) auto
  finally show ?thesis by (simp add: Portfolio_getTotalValue_def)
qed

lemma scenario_A_reachable: "reachable scenario_A"
  unfolding scenario_A_def
  by (intro reachable_fill reachable_price reachable_ctor [of 100000])
     (simp add: Portfolio_ctor_def)

text \<open>
  C1: in every reachable portfolio state, and so after any update_fill or update_price
  on one, get_total_value returns the cash plus the sum, over the symbols held with a
  nonzero quantity, of the quantity times the latest known price of the symbol; and
  get_total_value leaves the portfolio as it was.
\<close>

theorem total_value_is_cash_plus_holdings:
  assumes "reachable p"
  shows "fst (Portfolio_getTotalValue p) = cash p + holdings_value p
       \<and> snd (Portfolio_getTotalValue p) = p
       \<and> fst (Portfolio_getTotalValue (Portfolio_updateFill fill p))
           = cash (Portfolio_updateFill fill p) + holdings_value (Portfolio_updateFill fill p)
       \<and> fst (Portfolio_getTotalValue (Portfolio_updatePrice symbol price p))
           = cash (Portfolio_updatePrice symbol price p)
             + holdings_value (Portfolio_updatePrice symbol price p)"
proof -
  from assms have c: "consistent p" by (rule reachable_consistent)
  have "snd (Portfolio_getTotalValue p) = p" by (simp add: Portfolio_getTotalValue_def)
  with consistent_total [OF c]
    consistent_total [OF consistent_updateFill [OF c, of fill]]
    consistent_total [OF consistent_updatePrice [OF c, of symbol price]]
  show ?thesis by (intro conjI)
qed

theorem total_value_is_cash_plus_holdings_witness:
  "reachable scenario_A
   \<and> fst (Portfolio_getTotalValue scenario_A) = cash scenario_A + holdings_value scenario_A
   \<and> cash scenario_A = 98950
   \<and> fst (Portfolio_getTotalValue scenario_A) = 100000
   \<and> fst (Portfolio_getTotalValue (Portfolio_updatePrice ''AAPL'' 110 scenario_A)) = 100050"
  using total_value_is_cash_plus_holdings [OF scenario_A_reachable] scenario_A_reachable
  by (simp add: scenario_A_def Portfolio_updateFill_def Portfolio_updatePrice_def Let_def
      Portfolio_getCurrentPrice_def Position_updatePosition_def Position_ctor_def
      Portfolio_getTotalValue_def)

end
